theory Spec2Isabelle
  imports Main "HOL-Library.Sublist" "HOL-Library.Multiset"
begin

section \<open>Shared data model (the frontend's type declarations)\<close>

text \<open>
  The client is a React application. A JavaScript string is modelled as a \<open>string\<close>
  (a list of 8-bit characters, that is code units up to U+00FF); an optional field
  \<open>f?: T\<close> is a \<open>T option\<close>; a component's state (its \<open>useState\<close> cells) is a record
  which every handler takes and returns updated; what a handler sends to the outside
  (network requests, calls of callback props) is logged in list fields of that record.
  Each state update \<open>setX(prev => f(prev))\<close> is applied at the place where the source
  issues it.
\<close>

datatype role = R_user | R_assistant | R_system | R_thought | R_auth_required
  | R_intent | R_plan | R_error

datatype msg_type = T_message | T_thought | T_auth_required | T_intent | T_plan | T_error

datatype auth_type = Browser | OAuth

text \<open>\<open>InteractiveAuthConfig\<close>\<close>

record auth_config =
  server_name :: string
  auth_kind :: auth_type
  instructions :: string
  target_env_var :: string
  auth_url :: "string option"
  button_text :: "string option"
  authorize_url :: "string option"
  token_url :: "string option"
  scope :: "string option"
  client_id_env :: "string option"
  client_secret_env :: "string option"
  redirect_uri_env :: "string option"

text \<open>\<open>Message\<close>\<close>

record message =
  role :: role
  content :: string
  mtype :: "msg_type option"
  msg_id :: "string option"
  timestamp :: "string option"
  thoughts :: "string option"
  msg_auth_config :: "auth_config option"

text \<open>\<open>ConversationSummary\<close>\<close>

record conversation_summary =
  conv_id :: string
  title :: string
  created_at :: string
  updated_at :: "string option"

text \<open>The outcome of an awaited API call: the data, or a rejection with the HTTP
  status of \<open>err.response\<close> when there is one.\<close>

datatype 'a api_result = ApiOk 'a | ApiErr "nat option"

section \<open>App: the conversation list\<close>

record app_state =
  app_token :: "string option"
  userName :: string
  conversations :: "conversation_summary list"
  currentConversationId :: "string option"
  app_messages :: "message list"

definition handleLogout :: "app_state \<Rightarrow> app_state" where
  "handleLogout st = st\<lparr>app_token := None, userName := [], conversations := [],
     currentConversationId := None, app_messages := []\<rparr>"

text \<open>
  \<open>a.updated_at || a.created_at\<close>: the left operand is taken when it is truthy, that is
  present and not the empty string.
\<close>

definition stamp :: "conversation_summary \<Rightarrow> string" where
  "stamp c = (case updated_at c of
      None \<Rightarrow> created_at c
    | Some u \<Rightarrow> if u = [] then created_at c else u)"

text \<open>
  \<open>new Date(s).getTime()\<close> is the runtime's date parser; it is a parameter
  \<open>parse_date\<close> of the model, giving the milliseconds since the epoch (negative before
  1970) or \<open>None\<close> for \<open>NaN\<close>. \<open>validA\<close> is \<open>!isNaN(timeA) ? timeA : 0\<close>.
\<close>

definition valid_time :: "(string \<Rightarrow> int option) \<Rightarrow> conversation_summary \<Rightarrow> int" where
  "valid_time parse_date c = (case parse_date (stamp c) of None \<Rightarrow> 0 | Some t \<Rightarrow> t)"

text \<open>The comparator handed to \<open>data.sort\<close>: \<open>validB - validA\<close>.\<close>

definition compare_conversations ::
  "(string \<Rightarrow> int option) \<Rightarrow> conversation_summary \<Rightarrow> conversation_summary \<Rightarrow> int" where
  "compare_conversations parse_date a b = valid_time parse_date b - valid_time parse_date a"

text \<open>
  \<open>Array.prototype.sort\<close> is a built-in. ECMAScript requires it to be stable, so for a
  consistent comparator its result is determined; it is modelled as the stable
  insertion sort under the comparator (\<open>x\<close> goes before the first \<open>y\<close> with
  \<open>cmp x y \<le> 0\<close>).
\<close>

fun insert_by :: "('a \<Rightarrow> 'a \<Rightarrow> int) \<Rightarrow> 'a \<Rightarrow> 'a list \<Rightarrow> 'a list" where
  "insert_by cmp x [] = [x]"
| "insert_by cmp x (y # ys) = (if cmp x y \<le> 0 then x # y # ys else y # insert_by cmp x ys)"

definition array_sort :: "('a \<Rightarrow> 'a \<Rightarrow> int) \<Rightarrow> 'a list \<Rightarrow> 'a list" where
  "array_sort cmp xs = foldr (insert_by cmp) xs []"

definition loadConversations ::
  "(string \<Rightarrow> int option) \<Rightarrow> conversation_summary list api_result \<Rightarrow> app_state \<Rightarrow> app_state" where
  "loadConversations parse_date res st = (case res of
      ApiOk data \<Rightarrow> st\<lparr>conversations := array_sort (compare_conversations parse_date) data\<rparr>
    | ApiErr status \<Rightarrow> if status = Some 401 then handleLogout st else st)"

definition handleTitleUpdate :: "string \<Rightarrow> string \<Rightarrow> app_state \<Rightarrow> app_state" where
  "handleTitleUpdate i newTitle st =
     st\<lparr>conversations := map (\<lambda>c. if conv_id c = i then c\<lparr>title := newTitle\<rparr> else c)
       (conversations st)\<rparr>"

section \<open>String operations of the runtime\<close>

text \<open>
  \<open>String.prototype.trim\<close> removes white space and line terminators at both ends;
  within the code units of \<open>char\<close> these are tab, line feed, vertical tab, form feed,
  carriage return, space and the no-break space.
\<close>

definition is_ws :: "char \<Rightarrow> bool" where
  "is_ws c = (c \<in> set [CHR 0x09, CHR 0x0A, CHR 0x0B, CHR 0x0C, CHR 0x0D, CHR 0x20, CHR 0xA0])"

definition trim :: "string \<Rightarrow> string" where
  "trim s = rev (dropWhile is_ws (rev (dropWhile is_ws s)))"

definition startsWith :: "string \<Rightarrow> string \<Rightarrow> bool" where
  "startsWith s p = prefix p s"

text \<open>\<open>s.replace(pat, rep)\<close> with a string pattern replaces the first occurrence only.\<close>

fun replace :: "string \<Rightarrow> string \<Rightarrow> string \<Rightarrow> string" where
  "replace pat rep [] = (if pat = [] then rep else [])"
| "replace pat rep (c # cs) =
     (if prefix pat (c # cs) then rep @ drop (length pat) (c # cs)
      else c # replace pat rep cs)"

text \<open>\<open>s.split(sep)\<close> for a one-character separator: always at least one piece.\<close>

fun split_on :: "char \<Rightarrow> string \<Rightarrow> string list" where
  "split_on sep [] = [[]]"
| "split_on sep (c # cs) =
     (if c = sep then [] # split_on sep cs
      else (case split_on sep cs of
              [] \<Rightarrow> [[c]]
            | l # ls \<Rightarrow> (c # l) # ls))"

section \<open>ChatArea: one turn over the streaming response\<close>

text \<open>
  The value \<open>JSON.parse\<close> returns for a frame, as far as the handler reads it: the
  \<open>type\<close> tag with the \<open>content\<close> text, or for \<open>auth_required\<close> the \<open>server_name\<close> and the
  \<open>auth_config\<close> object (\<open>None\<close> when the event carries none, so that reading
  \<open>event.auth_config.instructions\<close> throws). \<open>E_other\<close> is any value whose \<open>type\<close>
  matches no branch. The \<open>auth_config\<close> object of an event may carry a \<open>server_name\<close>
  key of its own.
\<close>

record event_auth_config =
  ev_server_name :: "string option"
  ev_auth_kind :: auth_type
  ev_instructions :: string
  ev_target_env_var :: string
  ev_auth_url :: "string option"
  ev_button_text :: "string option"
  ev_authorize_url :: "string option"
  ev_token_url :: "string option"
  ev_scope :: "string option"
  ev_client_id_env :: "string option"
  ev_client_secret_env :: "string option"
  ev_redirect_uri_env :: "string option"

datatype event =
    E_token string
  | E_thought string
  | E_question string
  | E_auth_required string "event_auth_config option"
  | E_intent string
  | E_plan string
  | E_error string
  | E_title string
  | E_other

text \<open>The body of the \<open>POST /chat\<close> request with its bearer token.\<close>

record chat_request =
  req_conversation_id :: string
  req_message :: string
  req_bearer :: string

text \<open>
  The component's state, with the effects it has on its surroundings: the requests
  issued by \<open>fetch\<close> and the calls of the optional callback props \<open>onNewMessage\<close> and
  \<open>onTitleUpdate\<close>. \<open>abortController\<close> says whether \<open>abortControllerRef.current\<close> holds
  a controller.
\<close>

record chat_state =
  messages :: "message list"
  input :: string
  isLoading :: bool
  isStreaming :: bool
  abortController :: bool
  requests :: "chat_request list"
  newMessageCalls :: "message list"
  titleUpdates :: "(string \<times> string) list"

text \<open>An object literal \<open>{ role, content, type }\<close>: the other fields are absent.\<close>

definition mk_message :: "role \<Rightarrow> string \<Rightarrow> msg_type option \<Rightarrow> message" where
  "mk_message r c t = \<lparr>role = r, content = c, mtype = t, msg_id = None, timestamp = None,
     thoughts = None, msg_auth_config = None\<rparr>"

text \<open>\<open>{ server_name: event.server_name, ...event.auth_config }\<close>: the spread comes
  second, so a \<open>server_name\<close> key of the event's \<open>auth_config\<close> wins.\<close>

definition merge_auth_config :: "string \<Rightarrow> event_auth_config \<Rightarrow> auth_config" where
  "merge_auth_config sn cfg =
     \<lparr>server_name = (case ev_server_name cfg of None \<Rightarrow> sn | Some s \<Rightarrow> s),
      auth_kind = ev_auth_kind cfg,
      instructions = ev_instructions cfg,
      target_env_var = ev_target_env_var cfg,
      auth_url = ev_auth_url cfg,
      button_text = ev_button_text cfg,
      authorize_url = ev_authorize_url cfg,
      token_url = ev_token_url cfg,
      scope = ev_scope cfg,
      client_id_env = ev_client_id_env cfg,
      client_secret_env = ev_client_secret_env cfg,
      redirect_uri_env = ev_redirect_uri_env cfg\<rparr>"

text \<open>The updater of the \<open>token\<close> branch, applied to the previous list with the
  accumulated \<open>aiContent\<close>.\<close>

definition token_update :: "string \<Rightarrow> message list \<Rightarrow> message list" where
  "token_update aiContent prev =
     (if prev = [] \<or> role (last prev) = R_user \<or> mtype (last prev) = Some T_thought
      then prev @ [mk_message R_assistant aiContent (Some T_message)]
      else prev[length prev - 1 := (last prev)\<lparr>content := aiContent, mtype := Some T_message\<rparr>])"

text \<open>What the \<open>for\<close> loop over the lines of a chunk does next.\<close>

datatype control = Continue | Break

text \<open>
  The branches on \<open>event.type\<close>. The state is the component's state paired with the
  local variable \<open>aiContent\<close> of the turn. An \<open>auth_required\<close> event without an
  \<open>auth_config\<close> throws inside the \<open>try\<close>; the \<open>catch\<close> logs it and the loop goes on.
\<close>

fun handle_event ::
  "string \<Rightarrow> event \<Rightarrow> chat_state \<times> string \<Rightarrow> control \<times> chat_state \<times> string" where
  "handle_event cid (E_token c) (st, ai) =
     (Continue, st\<lparr>messages := token_update (ai @ c) (messages st)\<rparr>, ai @ c)"
| "handle_event cid (E_thought c) (st, ai) =
     (Continue, st\<lparr>messages := messages st @ [mk_message R_assistant c (Some T_thought)]\<rparr>, ai)"
| "handle_event cid (E_question c) (st, ai) =
     (Continue, st\<lparr>messages := messages st @ [mk_message R_assistant c (Some T_message)]\<rparr>, ai)"
| "handle_event cid (E_auth_required sn None) (st, ai) = (Continue, st, ai)"
| "handle_event cid (E_auth_required sn (Some cfg)) (st, ai) =
     (Break,
      st\<lparr>messages := messages st @
        [(mk_message R_assistant (ev_instructions cfg) (Some T_auth_required))
           \<lparr>msg_auth_config := Some (merge_auth_config sn cfg)\<rparr>]\<rparr>,
      ai)"
| "handle_event cid (E_intent c) (st, ai) =
     (Continue, st\<lparr>messages := messages st @ [mk_message R_intent c (Some T_intent)]\<rparr>, ai)"
| "handle_event cid (E_plan c) (st, ai) =
     (Continue, st\<lparr>messages := messages st @ [mk_message R_plan c (Some T_plan)]\<rparr>, ai)"
| "handle_event cid (E_error c) (st, ai) =
     (Continue, st\<lparr>messages := messages st @ [mk_message R_error c (Some T_error)]\<rparr>, ai)"
| "handle_event cid (E_title c) (st, ai) =
     (Continue, st\<lparr>titleUpdates := titleUpdates st @ [(cid, c)]\<rparr>, ai)"
| "handle_event cid E_other (st, ai) = (Continue, st, ai)"

text \<open>
  One line of a chunk. \<open>JSON.parse\<close> is the runtime's; it is the parameter \<open>parse\<close>,
  \<open>None\<close> where it throws (the \<open>catch\<close> logs the error and the loop goes on).
\<close>

definition process_line ::
  "(string \<Rightarrow> event option) \<Rightarrow> string \<Rightarrow> string \<Rightarrow> chat_state \<times> string
     \<Rightarrow> control \<times> chat_state \<times> string" where
  "process_line parse cid line s =
     (if startsWith line ''data: '' then
        (let dataStr = trim (replace ''data: '' [] line) in
         if dataStr = ''[DONE]'' then (Break, s)
         else (case parse dataStr of
                 None \<Rightarrow> (Continue, s)
               | Some ev \<Rightarrow> handle_event cid ev s))
      else (Continue, s))"

text \<open>\<open>for (const line of lines)\<close>: a \<open>break\<close> leaves this loop.\<close>

fun process_lines ::
  "(string \<Rightarrow> event option) \<Rightarrow> string \<Rightarrow> string list \<Rightarrow> chat_state \<times> string
     \<Rightarrow> chat_state \<times> string" where
  "process_lines parse cid [] s = s"
| "process_lines parse cid (line # lines) s =
     (case process_line parse cid line s of
        (Break, s') \<Rightarrow> s'
      | (Continue, s') \<Rightarrow> process_lines parse cid lines s')"

text \<open>
  \<open>while (true)\<close>: one round for each chunk the reader delivers, until the reader
  reports \<open>done\<close> or \<open>read\<close> rejects. The chunks are the decoded texts.
\<close>

fun read_loop ::
  "(string \<Rightarrow> event option) \<Rightarrow> string \<Rightarrow> string list \<Rightarrow> chat_state \<times> string
     \<Rightarrow> chat_state \<times> string" where
  "read_loop parse cid [] s = s"
| "read_loop parse cid (chunk # chunks) s =
     read_loop parse cid chunks (process_lines parse cid (split_on CHR 0x0A chunk) s)"

text \<open>
  How the request went: \<open>fetch\<close> rejected because the controller aborted it, or for
  another reason; the response was not \<open>ok\<close> or had no body; or the body delivered
  some chunks and then ended (\<open>done\<close>), was aborted, or failed.
\<close>

datatype stream_end = S_done | S_abort | S_error

datatype response = Fetch_aborted | Fetch_failed | Not_ok | Ok_stream "string list" stream_end

definition sorry_message :: message where
  "sorry_message = mk_message R_assistant
     ''Sorry, I encountered an error. Please try again.'' None"

text \<open>The \<open>try\<close> block with its \<open>catch\<close>: an error that is not an \<open>AbortError\<close> appends
  the apology.\<close>

definition run_request ::
  "(string \<Rightarrow> event option) \<Rightarrow> string \<Rightarrow> response \<Rightarrow> chat_state \<Rightarrow> chat_state" where
  "run_request parse cid resp st = (case resp of
      Fetch_aborted \<Rightarrow> st
    | Fetch_failed \<Rightarrow> st\<lparr>messages := messages st @ [sorry_message]\<rparr>
    | Not_ok \<Rightarrow> st\<lparr>messages := messages st @ [sorry_message]\<rparr>
    | Ok_stream chunks e \<Rightarrow>
        (let st' = fst (read_loop parse cid chunks (st, [])) in
         case e of
           S_done \<Rightarrow> st'
         | S_abort \<Rightarrow> st'
         | S_error \<Rightarrow> st'\<lparr>messages := messages st' @ [sorry_message]\<rparr>))"

text \<open>
  \<open>handleSend\<close>. The guard returns when the trimmed input is empty or the conversation
  id is \<open>null\<close> or the empty string.
\<close>

definition handleSend ::
  "(string \<Rightarrow> event option) \<Rightarrow> string option \<Rightarrow> string \<Rightarrow> response \<Rightarrow> chat_state
     \<Rightarrow> chat_state" where
  "handleSend parse conversationId token resp st =
     (case conversationId of
        None \<Rightarrow> st
      | Some cid \<Rightarrow>
          if trim (input st) = [] \<or> cid = [] then st
          else
            (let userMsg = mk_message R_user (input st) None;
                 st1 = st\<lparr>messages := messages st @ [userMsg],
                          newMessageCalls := newMessageCalls st @ [userMsg],
                          input := [],
                          isLoading := True,
                          isStreaming := True,
                          abortController := True,
                          requests := requests st @
                            [\<lparr>req_conversation_id = cid, req_message = content userMsg,
                              req_bearer = token\<rparr>]\<rparr>;
                 st2 = run_request parse cid resp st1
             in st2\<lparr>isLoading := False, isStreaming := False, abortController := False\<rparr>))"

text \<open>\<open>handleStop\<close>: the abort makes the pending \<open>fetch\<close> or \<open>read\<close> of the turn reject
  with an \<open>AbortError\<close> (the \<open>Fetch_aborted\<close> and \<open>S_abort\<close> outcomes above).\<close>

definition handleStop :: "chat_state \<Rightarrow> chat_state" where
  "handleStop st =
     (if abortController st then st\<lparr>isStreaming := False, isLoading := False\<rparr> else st)"

section \<open>AuthPrompt: submitting a pasted token\<close>

text \<open>The body \<open>user.submitMCPAuth\<close> posts to \<open>/user/mcp-auth\<close>.\<close>

record mcp_auth_request =
  ar_server_name :: string
  ar_token :: string
  ar_token_name :: string

definition submitMCPAuth :: "string \<Rightarrow> string \<Rightarrow> string \<Rightarrow> mcp_auth_request" where
  "submitMCPAuth serverName token tokenName =
     \<lparr>ar_server_name = serverName, ar_token = token, ar_token_name = tokenName\<rparr>"

text \<open>
  The component's state (\<open>pasted\<close> is the state cell \<open>token\<close>, \<open>error_text\<close> the cell
  \<open>error\<close>) with the log of the requests posted. The success panel is rendered when
  \<open>isSuccess\<close> holds, the form otherwise.
\<close>

record auth_prompt_state =
  pasted :: string
  isSubmitting :: bool
  isSuccess :: bool
  error_text :: "string option"
  posted :: "mcp_auth_request list"

text \<open>
  \<open>handleSubmit\<close>. The server is a parameter: whether it accepts the request (the
  awaited call resolves) or not (it throws).
\<close>

definition handleSubmit ::
  "string \<Rightarrow> string \<Rightarrow> (mcp_auth_request \<Rightarrow> bool) \<Rightarrow> auth_prompt_state \<Rightarrow> auth_prompt_state" where
  "handleSubmit serverName targetEnvVar accepts st =
     (if trim (pasted st) = [] then st
      else
        (let req = submitMCPAuth serverName (trim (pasted st)) targetEnvVar;
             st1 = st\<lparr>isSubmitting := True, error_text := None, posted := posted st @ [req]\<rparr>;
             st2 = (if accepts req then st1\<lparr>isSuccess := True\<rparr>
                    else st1\<lparr>error_text := Some ''Failed to save token. Please try again.''\<rparr>)
         in st2\<lparr>isSubmitting := False\<rparr>))"

section \<open>IntegrationsSettings: the credential form\<close>

text \<open>\<open>MCPServerInfo\<close>\<close>

record interactive_auth_info =
  ia_type :: string
  ia_auth_url :: string
  ia_instructions :: string
  ia_target_env_var :: string















section \<open>Notions used to state the properties\<close>

text \<open>
  What a line of a chunk is to the loop: nothing (no \<open>data: \<close> prefix, or a payload
  that \<open>JSON.parse\<close> rejects), the end marker, or an event.
\<close>

datatype frame = F_skip | F_done | F_event event

definition classify :: "(string \<Rightarrow> event option) \<Rightarrow> string \<Rightarrow> frame" where
  "classify parse line =
     (if startsWith line ''data: '' then
        (if trim (replace ''data: '' [] line) = ''[DONE]'' then F_done
         else (case parse (trim (replace ''data: '' [] line)) of
                 None \<Rightarrow> F_skip
               | Some ev \<Rightarrow> F_event ev))
      else F_skip)"








text \<open>The state in which the request of a turn is issued: \<open>handleSend\<close> up to the
  \<open>try\<close>.\<close>

definition turn_started :: "string \<Rightarrow> string \<Rightarrow> chat_state \<Rightarrow> chat_state" where
  "turn_started cid token st =
     st\<lparr>messages := messages st @ [mk_message R_user (input st) None],
        newMessageCalls := newMessageCalls st @ [mk_message R_user (input st) None],
        input := [],
        isLoading := True,
        isStreaming := True,
        abortController := True,
        requests := requests st @
          [\<lparr>req_conversation_id = cid, req_message = input st, req_bearer = token\<rparr>]\<rparr>"

text \<open>The reading of "conversations with an unparsable timestamp sort last": once one
  has been listed, only such conversations follow.\<close>

definition unparsable_sort_last ::
  "(string \<Rightarrow> int option) \<Rightarrow> conversation_summary list \<Rightarrow> bool" where
  "unparsable_sort_last parse_date cs =
     list_all (\<lambda>c. parse_date (stamp c) = None)
       (dropWhile (\<lambda>c. parse_date (stamp c) \<noteq> None) cs)"


section \<open>Sample inputs\<close>

definition sample_date :: "string \<Rightarrow> int option" where
  "sample_date s =
     (if s = ''1969-12-31T23:59:59.000Z'' then Some (- 1000)
      else if s = ''2024-05-01T10:00:00.000Z'' then Some 1714557600000
      else if s = ''2024-05-02T10:00:00.000Z'' then Some 1714644000000
      else None)"

definition conv_a :: conversation_summary where
  "conv_a = \<lparr>conv_id = ''a'', title = ''Alpha'', created_at = ''2024-05-01T10:00:00.000Z'',
     updated_at = None\<rparr>"

definition conv_b :: conversation_summary where
  "conv_b = \<lparr>conv_id = ''b'', title = ''Beta'', created_at = ''2024-05-01T10:00:00.000Z'',
     updated_at = Some ''2024-05-02T10:00:00.000Z''\<rparr>"

definition conv_bad :: conversation_summary where
  "conv_bad = \<lparr>conv_id = ''c'', title = ''Gamma'', created_at = ''not a date'',
     updated_at = None\<rparr>"

definition conv_old :: conversation_summary where
  "conv_old = \<lparr>conv_id = ''d'', title = ''Delta'', created_at = ''1969-12-31T23:59:59.000Z'',
     updated_at = None\<rparr>"

definition app0 :: app_state where
  "app0 = \<lparr>app_token = Some ''t'', userName = ''u'', conversations = [],
     currentConversationId = None, app_messages = []\<rparr>"

text \<open>A challenge as the server sends it, and the JSON texts of some frames with the
  values \<open>JSON.parse\<close> gives for them.\<close>

definition jira_challenge :: event_auth_config where
  "jira_challenge = \<lparr>ev_server_name = None, ev_auth_kind = Browser,
     ev_instructions = ''Paste your Jira token'', ev_target_env_var = ''JIRA_TOKEN'',
     ev_auth_url = Some ''https://jira.example/tokens'', ev_button_text = None,
     ev_authorize_url = None, ev_token_url = None, ev_scope = None,
     ev_client_id_env = None, ev_client_secret_env = None, ev_redirect_uri_env = None\<rparr>"

definition sample_parse :: "string \<Rightarrow> event option" where
  "sample_parse = map_of
     [(''{\"type\":\"token\",\"content\":\"A\"}'', E_token ''A''),
      (''{\"type\":\"token\",\"content\":\"B\"}'', E_token ''B''),
      (''{\"type\":\"thought\",\"content\":\"T\"}'', E_thought ''T''),
      (''{\"type\":\"question\",\"content\":\"Which one?\"}'', E_question ''Which one?''),
      (''{\"type\":\"auth_required\",\"server_name\":\"jira\",\"auth_config\":{\"type\":\"browser\",\"instructions\":\"Paste your Jira token\",\"target_env_var\":\"JIRA_TOKEN\",\"auth_url\":\"https://jira.example/tokens\"}}'',
         E_auth_required ''jira'' (Some jira_challenge))]"

definition line_token_A :: string where
  "line_token_A = ''data: {\"type\":\"token\",\"content\":\"A\"}\<newline>\<newline>''"

definition line_token_B :: string where
  "line_token_B = ''data: {\"type\":\"token\",\"content\":\"B\"}\<newline>\<newline>''"

definition line_thought_T :: string where
  "line_thought_T = ''data: {\"type\":\"thought\",\"content\":\"T\"}\<newline>\<newline>''"

definition line_question :: string where
  "line_question = ''data: {\"type\":\"question\",\"content\":\"Which one?\"}\<newline>\<newline>''"

definition line_auth :: string where
  "line_auth = ''data: {\"type\":\"auth_required\",\"server_name\":\"jira\",\"auth_config\":{\"type\":\"browser\",\"instructions\":\"Paste your Jira token\",\"target_env_var\":\"JIRA_TOKEN\",\"auth_url\":\"https://jira.example/tokens\"}}\<newline>\<newline>''"

definition line_done :: string where
  "line_done = ''data: [DONE]\<newline>\<newline>''"

definition chat0 :: chat_state where
  "chat0 = \<lparr>messages = [], input = ''hi'', isLoading = False, isStreaming = False,
     abortController = False, requests = [], newMessageCalls = [], titleUpdates = []\<rparr>"

definition prompt0 :: auth_prompt_state where
  "prompt0 = \<lparr>pasted = [], isSubmitting = False, isSuccess = False, error_text = None,
     posted = []\<rparr>"



section \<open>Properties of the string operations\<close>

text \<open>The trimmed text is empty exactly when the text is empty or white space only.\<close>

lemma trim_empty_iff: "trim s = [] \<longleftrightarrow> list_all is_ws s"
proof
  assume "list_all is_ws s"
  then have "\<forall>x\<in>set s. is_ws x"
    by (simp add: list_all_iff)
  then have "dropWhile is_ws s = []"
    by (induction s) simp_all
  then show "trim s = []" by (simp add: trim_def del: dropWhile_eq_Nil_conv)
next
  assume t: "trim s = []"
  show "list_all is_ws s"
  proof (rule ccontr)
    assume "\<not> list_all is_ws s"
    then have "\<not> (\<forall>x\<in>set s. is_ws x)"
      by (simp add: list_all_iff)
    then have ne: "dropWhile is_ws s \<noteq> []"
      by (induction s) auto
    then have "\<not> is_ws (hd (dropWhile is_ws s))"
      by (rule hd_dropWhile)
    moreover from ne have "hd (dropWhile is_ws s) \<in> set (rev (dropWhile is_ws s))"
      by simp
    ultimately have "dropWhile is_ws (rev (dropWhile is_ws s)) \<noteq> []"
      by (metis dropWhile_eq_Nil_conv)
    with t show False by (simp add: trim_def del: dropWhile_eq_Nil_conv)
  qed
qed

section \<open>Properties of the conversation list\<close>

lemma mset_insert_by: "mset (insert_by cmp x xs) = add_mset x (mset xs)"
  by (induction xs) auto

lemma mset_array_sort: "mset (array_sort cmp xs) = mset xs"
  unfolding array_sort_def by (induction xs) (auto simp: mset_insert_by)

lemma set_insert_by: "set (insert_by cmp x xs) = insert x (set xs)"
  by (induction xs) auto

lemma sorted_insert_by:
  assumes "sorted_wrt (\<lambda>a b. valid_time pd b \<le> valid_time pd a) xs"
  shows "sorted_wrt (\<lambda>a b. valid_time pd b \<le> valid_time pd a)
           (insert_by (compare_conversations pd) x xs)"
  using assms
proof (induction xs)
  case Nil
  then show ?case by simp
next
  case (Cons y ys)
  show ?case
  proof (cases "compare_conversations pd x y \<le> 0")
    case True
    then have xy: "valid_time pd y \<le> valid_time pd x"
      by (simp add: compare_conversations_def)
    have "\<forall>z\<in>set ys. valid_time pd z \<le> valid_time pd y"
      using Cons.prems by simp
    with xy have "\<forall>z\<in>set ys. valid_time pd z \<le> valid_time pd x"
      by fastforce
    with True xy Cons.prems show ?thesis by simp
  next
    case False
    then have yx: "valid_time pd x \<le> valid_time pd y"
      by (simp add: compare_conversations_def)
    from Cons have "sorted_wrt (\<lambda>a b. valid_time pd b \<le> valid_time pd a)
        (insert_by (compare_conversations pd) x ys)"
      by simp
    with False yx Cons.prems show ?thesis
      by (auto simp: set_insert_by)
  qed
qed

lemma sorted_array_sort:
  "sorted_wrt (\<lambda>a b. valid_time pd b \<le> valid_time pd a)
     (array_sort (compare_conversations pd) xs)"
proof (induction xs)
  case Nil
  show ?case by (simp add: array_sort_def)
next
  case (Cons x xs)
  have "array_sort (compare_conversations pd) (x # xs) =
      insert_by (compare_conversations pd) x (array_sort (compare_conversations pd) xs)"
    by (simp add: array_sort_def)
  with Cons sorted_insert_by show ?case by simp
qed

text \<open>
  C9 (as amended). \<open>loadConversations\<close> keeps exactly the summaries the server returned and lists
  them by descending timestamp. The timestamp of a summary is the time of its
  \<open>updated_at\<close> when that is present and not empty, of its \<open>created_at\<close> otherwise, and
  0 when the date parser rejects the text. A summary with a rejected timestamp is
  therefore listed after every summary whose time is positive (later than the epoch).
\<close>

theorem loadConversations_sorted:
  "mset (conversations (loadConversations pd (ApiOk data) st)) = mset data
   \<and> sorted_wrt (\<lambda>a b. valid_time pd b \<le> valid_time pd a)
        (conversations (loadConversations pd (ApiOk data) st))
   \<and> (\<forall>c. valid_time pd c = (case pd (stamp c) of None \<Rightarrow> 0 | Some t \<Rightarrow> t))
   \<and> (\<forall>c. stamp c = (case updated_at c of None \<Rightarrow> created_at c
                  | Some u \<Rightarrow> if u = [] then created_at c else u))
   \<and> (\<forall>i j. i < length data \<and> j < length data
         \<and> pd (stamp (conversations (loadConversations pd (ApiOk data) st) ! i)) = None
         \<and> 0 < valid_time pd (conversations (loadConversations pd (ApiOk data) st) ! j)
         \<longrightarrow> j < i)"
proof -
  define res where "res = conversations (loadConversations pd (ApiOk data) st)"
  have res: "res = array_sort (compare_conversations pd) data"
    by (simp add: res_def loadConversations_def)
  have m: "mset res = mset data"
    unfolding res by (rule mset_array_sort)
  then have len: "length res = length data"
    by (metis size_mset)
  have s: "sorted_wrt (\<lambda>a b. valid_time pd b \<le> valid_time pd a) res"
    unfolding res by (rule sorted_array_sort)
  have v: "\<forall>c. valid_time pd c = (case pd (stamp c) of None \<Rightarrow> 0 | Some t \<Rightarrow> t)"
    by (simp add: valid_time_def)
  have k: "\<forall>c. stamp c = (case updated_at c of None \<Rightarrow> created_at c
                  | Some u \<Rightarrow> if u = [] then created_at c else u)"
    by (simp add: stamp_def)
  have l: "j < i"
    if "i < length data" "j < length data" "pd (stamp (res ! i)) = None"
       "0 < valid_time pd (res ! j)" for i j
  proof (rule ccontr)
    assume n: "\<not> j < i"
    from that(3) have c0: "valid_time pd (res ! i) = 0"
      by (simp add: valid_time_def)
    with that(4) have "i \<noteq> j" by auto
    with n have ij: "i < j" by simp
    from that(2) len have "j < length res" by simp
    with s ij have "valid_time pd (res ! j) \<le> valid_time pd (res ! i)"
      by (simp add: sorted_wrt_iff_nth_less)
    with c0 that(4) show False by simp
  qed
  from m s v k l show ?thesis
    unfolding res_def by blast
qed

lemma sample_sort:
  "conversations (loadConversations sample_date (ApiOk [conv_bad, conv_a, conv_b]) app0)
    = [conv_b, conv_a, conv_bad]"
  by (simp add: loadConversations_def array_sort_def compare_conversations_def
      valid_time_def stamp_def sample_date_def conv_a_def conv_b_def conv_bad_def app0_def)

theorem loadConversations_sorted_witness:
  "conversations (loadConversations sample_date (ApiOk [conv_bad, conv_a, conv_b]) app0)
     = [conv_b, conv_a, conv_bad]
   \<and> sample_date (stamp conv_bad) = None
   \<and> 0 < valid_time sample_date conv_b
   \<and> (0::nat) < 2"
  using loadConversations_sorted [of sample_date "[conv_bad, conv_a, conv_b]" app0]
  by (simp add: sample_sort)
     (simp add: valid_time_def stamp_def sample_date_def conv_b_def conv_bad_def)

text \<open>
  C9 as written fails: a summary dated before 1970 has a negative time and is listed
  after one whose timestamp is rejected, which therefore is not last.
\<close>

theorem unparsable_not_last_counterexample:
  "\<not> unparsable_sort_last sample_date
       (conversations (loadConversations sample_date (ApiOk [conv_old, conv_bad]) app0))"
  by (simp add: loadConversations_def array_sort_def compare_conversations_def
      valid_time_def stamp_def sample_date_def conv_old_def conv_bad_def app0_def
      unparsable_sort_last_def)

text \<open>
  C10. \<open>handleTitleUpdate\<close> changes only the title of the conversations whose id
  matches: the list keeps its length and order, every conversation with another id
  is unchanged, a matching one differs from the old one in its title only (its id,
  \<open>created_at\<close> and \<open>updated_at\<close> are unchanged), and when no conversation has the id
  the state is unchanged. The rest of the application state is untouched.
\<close>

theorem handleTitleUpdate_frame:
  "length (conversations (handleTitleUpdate i t st)) = length (conversations st)
   \<and> (\<forall>k < length (conversations st).
        (conv_id (conversations st ! k) \<noteq> i \<longrightarrow>
           conversations (handleTitleUpdate i t st) ! k = conversations st ! k)
      \<and> (conv_id (conversations st ! k) = i \<longrightarrow>
           conversations (handleTitleUpdate i t st) ! k = (conversations st ! k)\<lparr>title := t\<rparr>)
      \<and> conv_id (conversations (handleTitleUpdate i t st) ! k) = conv_id (conversations st ! k)
      \<and> created_at (conversations (handleTitleUpdate i t st) ! k)
           = created_at (conversations st ! k)
      \<and> updated_at (conversations (handleTitleUpdate i t st) ! k)
           = updated_at (conversations st ! k))
   \<and> (i \<notin> conv_id ` set (conversations st) \<longrightarrow> handleTitleUpdate i t st = st)
   \<and> app_token (handleTitleUpdate i t st) = app_token st
   \<and> userName (handleTitleUpdate i t st) = userName st
   \<and> currentConversationId (handleTitleUpdate i t st) = currentConversationId st
   \<and> app_messages (handleTitleUpdate i t st) = app_messages st"
proof -
  let ?f = "\<lambda>c. if conv_id c = i then c\<lparr>title := t\<rparr> else c"
  have cs: "conversations (handleTitleUpdate i t st) = map ?f (conversations st)"
    by (simp add: handleTitleUpdate_def)
  have same: "map ?f (conversations st) = conversations st"
    if "i \<notin> conv_id ` set (conversations st)"
    using that by (intro map_idI) auto
  have unchanged: "handleTitleUpdate i t st = st" if "i \<notin> conv_id ` set (conversations st)"
    using same [OF that] by (simp add: handleTitleUpdate_def)
  show ?thesis
    using unchanged by (simp add: cs) (simp add: handleTitleUpdate_def)
qed

theorem handleTitleUpdate_frame_witness:
  "conversations (handleTitleUpdate ''b'' ''Renamed''
      (app0\<lparr>conversations := [conv_a, conv_b, conv_bad]\<rparr>))
     = [conv_a, conv_b\<lparr>title := ''Renamed''\<rparr>, conv_bad]
   \<and> conv_id conv_a \<noteq> ''b'' \<and> conv_id conv_b = ''b''
   \<and> handleTitleUpdate ''zz'' ''Renamed'' (app0\<lparr>conversations := [conv_a, conv_b, conv_bad]\<rparr>)
     = app0\<lparr>conversations := [conv_a, conv_b, conv_bad]\<rparr>
   \<and> ''zz'' \<notin> conv_id ` set [conv_a, conv_b, conv_bad]"
  using handleTitleUpdate_frame [of "''b''" "''Renamed''"
      "app0\<lparr>conversations := [conv_a, conv_b, conv_bad]\<rparr>"]
    handleTitleUpdate_frame [of "''zz''" "''Renamed''"
      "app0\<lparr>conversations := [conv_a, conv_b, conv_bad]\<rparr>"]
  by (simp add: handleTitleUpdate_def conv_a_def conv_b_def conv_bad_def app0_def)

section \<open>Properties of the stream loop\<close>

lemma process_line_classify:
  "process_line parse cid line s = (case classify parse line of
      F_skip \<Rightarrow> (Continue, s)
    | F_done \<Rightarrow> (Break, s)
    | F_event ev \<Rightarrow> handle_event cid ev s)"
  by (simp add: process_line_def classify_def Let_def split: option.splits)











lemma handleSend_sent:
  assumes "trim (input st) \<noteq> []" and "cid \<noteq> []"
  shows "handleSend parse (Some cid) tok resp st =
    (run_request parse cid resp (turn_started cid tok st))
      \<lparr>isLoading := False, isStreaming := False, abortController := False\<rparr>"
  using assms by (simp add: handleSend_def turn_started_def Let_def mk_message_def)

lemmas chat_eval =
  handleSend_def run_request_def process_line_def startsWith_def trim_def is_ws_def
  token_update_def mk_message_def sorry_message_def Let_def

lemmas sample_eval =
  sample_parse_def line_token_A_def line_token_B_def line_thought_T_def line_auth_def
  line_question_def line_done_def chat0_def








text \<open>
  Within one chunk the end marker does end the processing: no line after it is
  handled. So does an \<open>auth_required\<close> event, after appending its one message.
\<close>

lemma done_skips_rest_of_chunk:
  "classify parse line = F_done \<Longrightarrow> process_lines parse cid (line # rest) s = s"
  by (simp add: process_line_classify)

lemma auth_required_appends_and_breaks:
  assumes "classify parse line = F_event (E_auth_required sn (Some cfg))"
  shows "process_lines parse cid (line # rest) (st, ai) =
    (st\<lparr>messages := messages st @
        [(mk_message R_assistant (ev_instructions cfg) (Some T_auth_required))
           \<lparr>msg_auth_config := Some (merge_auth_config sn cfg)\<rparr>]\<rparr>, ai)"
  using assms by (simp add: process_line_classify)

text \<open>
  C2 (the code at the failing input). The \<open>break\<close> on the end marker leaves the loop
  over the lines of the current chunk only; the \<open>while\<close> loop reads on. A frame that
  arrives in a later chunk, after the end marker, is handled: here the thought \<open>T\<close> is
  appended to the message list.
\<close>

theorem frame_after_done_is_processed:
  "messages (handleSend sample_parse (Some ''c1'') ''tok''
      (Ok_stream [line_token_A @ line_done, line_thought_T] S_done) chat0)
   = [mk_message R_user ''hi'' None,
      mk_message R_assistant ''A'' (Some T_message),
      mk_message R_assistant ''T'' (Some T_thought)]"
  by (simp add: chat_eval sample_eval)

text \<open>
  C3 (the code at the failing input). The \<open>break\<close> after an \<open>auth_required\<close> event
  leaves the loop over the lines of the current chunk only. An event that arrives in
  a later chunk is handled although the challenge is unresolved: here the thought \<open>T\<close>
  is appended after the challenge.
\<close>

theorem event_after_auth_required_is_processed:
  "messages (handleSend sample_parse (Some ''c1'') ''tok''
      (Ok_stream [line_auth, line_thought_T] S_done) chat0)
   = [mk_message R_user ''hi'' None,
      (mk_message R_assistant ''Paste your Jira token'' (Some T_auth_required))
        \<lparr>msg_auth_config := Some (merge_auth_config ''jira'' jira_challenge)\<rparr>,
      mk_message R_assistant ''T'' (Some T_thought)]"
  by (simp add: chat_eval sample_eval jira_challenge_def)

text \<open>A \<open>token\<close> arriving in a later chunk even replaces the text of the challenge.\<close>

lemma token_after_auth_required_overwrites:
  "messages (handleSend sample_parse (Some ''c1'') ''tok''
      (Ok_stream [line_auth, line_token_A] S_done) chat0)
   = [mk_message R_user ''hi'' None,
      (mk_message R_assistant ''A'' (Some T_message))
        \<lparr>msg_auth_config := Some (merge_auth_config ''jira'' jira_challenge)\<rparr>]"
  by (simp add: chat_eval sample_eval)

text \<open>
  C5. Cancelling a turn appends nothing: when the stream is aborted after some
  chunks, the transcript is the one the received chunks produced (the same state as
  if the stream had ended there); when the request is aborted before any response,
  the transcript is the old one with the user's message. In both cases neither the
  apology nor any other message is added and the loading and streaming flags are
  cleared. \<open>handleStop\<close> itself clears both flags and leaves the transcript alone.
\<close>

theorem abort_appends_nothing:
  assumes "trim (input st) \<noteq> []" and "cid \<noteq> []"
  shows "messages (handleSend parse (Some cid) tok (Ok_stream chunks S_abort) st)
      = messages (fst (read_loop parse cid chunks (turn_started cid tok st, [])))
    \<and> handleSend parse (Some cid) tok (Ok_stream chunks S_abort) st
      = handleSend parse (Some cid) tok (Ok_stream chunks S_done) st
    \<and> messages (handleSend parse (Some cid) tok Fetch_aborted st)
      = messages st @ [mk_message R_user (input st) None]
    \<and> \<not> isLoading (handleSend parse (Some cid) tok (Ok_stream chunks S_abort) st)
    \<and> \<not> isStreaming (handleSend parse (Some cid) tok (Ok_stream chunks S_abort) st)
    \<and> \<not> isLoading (handleSend parse (Some cid) tok Fetch_aborted st)
    \<and> \<not> isStreaming (handleSend parse (Some cid) tok Fetch_aborted st)
    \<and> (abortController st' \<longrightarrow>
         \<not> isLoading (handleStop st') \<and> \<not> isStreaming (handleStop st')
         \<and> messages (handleStop st') = messages st')"
  using assms
  by (simp add: handleSend_sent run_request_def Let_def)
     (simp add: turn_started_def handleStop_def)

theorem abort_appends_nothing_witness:
  "messages (handleSend sample_parse (Some ''c1'') ''tok''
      (Ok_stream [line_token_A] S_abort) chat0)
     = [mk_message R_user ''hi'' None, mk_message R_assistant ''A'' (Some T_message)]
   \<and> messages (handleSend sample_parse (Some ''c1'') ''tok'' Fetch_aborted chat0)
     = [mk_message R_user ''hi'' None]
   \<and> \<not> isStreaming (handleSend sample_parse (Some ''c1'') ''tok''
      (Ok_stream [line_token_A] S_abort) chat0)
   \<and> abortController (turn_started ''c1'' ''tok'' chat0)
   \<and> \<not> isStreaming (handleStop (turn_started ''c1'' ''tok'' chat0))
   \<and> trim (input chat0) = ''hi''"
  using abort_appends_nothing [of chat0 "''c1''" sample_parse "''tok''" "[line_token_A]"
      "turn_started ''c1'' ''tok'' chat0"]
  by (simp add: chat_eval sample_eval turn_started_def)

text \<open>For contrast: a stream that fails for another reason appends the apology.\<close>

lemma stream_error_appends_apology:
  assumes "trim (input st) \<noteq> []" and "cid \<noteq> []"
  shows "messages (handleSend parse (Some cid) tok (Ok_stream chunks S_error) st)
      = messages (handleSend parse (Some cid) tok (Ok_stream chunks S_abort) st)
        @ [sorry_message]"
  using assms by (simp add: handleSend_sent run_request_def Let_def)





text \<open>
  C8. When the input is empty or consists of white space only, or no conversation is
  selected (the id is \<open>null\<close> or empty), \<open>handleSend\<close> returns the state as it was: no
  request is issued, and the message list, the input text and the flags are unchanged.
\<close>

theorem handleSend_guard_noop:
  assumes "list_all is_ws (input st) \<or> conversationId = None \<or> conversationId = Some []"
  shows "handleSend parse conversationId tok resp st = st"
  using assms by (auto simp: handleSend_def trim_empty_iff split: option.splits)

theorem handleSend_guard_noop_witness:
  "list_all is_ws (input (chat0\<lparr>input := '' \<newline>  ''\<rparr>))
   \<and> handleSend sample_parse (Some ''c1'') ''tok'' (Ok_stream [line_token_A] S_done)
       (chat0\<lparr>input := '' \<newline>  ''\<rparr>) = chat0\<lparr>input := '' \<newline>  ''\<rparr>
   \<and> handleSend sample_parse None ''tok'' (Ok_stream [line_token_A] S_done) chat0 = chat0
   \<and> requests (handleSend sample_parse None ''tok'' (Ok_stream [line_token_A] S_done) chat0) = []"
  using handleSend_guard_noop [of "chat0\<lparr>input := '' \<newline>  ''\<rparr>" "Some ''c1''" sample_parse
      "''tok''" "Ok_stream [line_token_A] S_done"]
    handleSend_guard_noop [of chat0 None sample_parse "''tok''" "Ok_stream [line_token_A] S_done"]
  by (simp add: is_ws_def chat0_def)

section \<open>Properties of the token prompt\<close>

text \<open>
  C4 (as amended). A pasted token that is not empty or white space only is posted
  once, with the white space at both ends removed, for the given server name and
  target key. When the server accepts it the success state is entered; when it
  rejects it the success state is not entered, the failure text is set and no second
  request is made. A token that is empty or white space only is not posted and the
  state is unchanged.
\<close>

theorem handleSubmit_posts_trimmed_token:
  "(\<not> list_all is_ws (pasted st) \<longrightarrow>
      posted (handleSubmit sn key accepts st)
        = posted st @ [\<lparr>ar_server_name = sn, ar_token = trim (pasted st), ar_token_name = key\<rparr>]
      \<and> \<not> isSubmitting (handleSubmit sn key accepts st)
      \<and> pasted (handleSubmit sn key accepts st) = pasted st
      \<and> (accepts (submitMCPAuth sn (trim (pasted st)) key) \<longrightarrow>
           isSuccess (handleSubmit sn key accepts st)
           \<and> error_text (handleSubmit sn key accepts st) = None)
      \<and> (\<not> accepts (submitMCPAuth sn (trim (pasted st)) key) \<longrightarrow>
           isSuccess (handleSubmit sn key accepts st) = isSuccess st
           \<and> error_text (handleSubmit sn key accepts st)
               = Some ''Failed to save token. Please try again.''))
   \<and> (list_all is_ws (pasted st) \<longrightarrow> handleSubmit sn key accepts st = st)"
  by (simp add: handleSubmit_def submitMCPAuth_def Let_def trim_empty_iff [symmetric])

theorem handleSubmit_posts_trimmed_token_witness:
  "trim '' abc '' = ''abc'' \<and> \<not> list_all is_ws '' abc '' \<and> list_all is_ws ''  ''
   \<and> posted (handleSubmit ''jira'' ''JIRA_TOKEN'' (\<lambda>r. True) (prompt0\<lparr>pasted := '' abc ''\<rparr>))
      = [\<lparr>ar_server_name = ''jira'', ar_token = ''abc'', ar_token_name = ''JIRA_TOKEN''\<rparr>]
   \<and> isSuccess (handleSubmit ''jira'' ''JIRA_TOKEN'' (\<lambda>r. True) (prompt0\<lparr>pasted := '' abc ''\<rparr>))
   \<and> \<not> isSuccess (handleSubmit ''jira'' ''JIRA_TOKEN'' (\<lambda>r. False)
        (prompt0\<lparr>pasted := '' abc ''\<rparr>))
   \<and> error_text (handleSubmit ''jira'' ''JIRA_TOKEN'' (\<lambda>r. False)
        (prompt0\<lparr>pasted := '' abc ''\<rparr>)) = Some ''Failed to save token. Please try again.''
   \<and> handleSubmit ''jira'' ''JIRA_TOKEN'' (\<lambda>r. True) (prompt0\<lparr>pasted := ''  ''\<rparr>)
      = prompt0\<lparr>pasted := ''  ''\<rparr>"
  using handleSubmit_posts_trimmed_token [of "prompt0\<lparr>pasted := '' abc ''\<rparr>" "''jira''"
      "''JIRA_TOKEN''" "\<lambda>r. True"]
    handleSubmit_posts_trimmed_token [of "prompt0\<lparr>pasted := '' abc ''\<rparr>" "''jira''"
      "''JIRA_TOKEN''" "\<lambda>r. False"]
    handleSubmit_posts_trimmed_token [of "prompt0\<lparr>pasted := ''  ''\<rparr>" "''jira''"
      "''JIRA_TOKEN''" "\<lambda>r. True"]
  by (simp add: trim_def is_ws_def prompt0_def)

text \<open>
  C4 as written fails: the token posted is the trimmed one, so a pasted token
  with white space at an end is not sent as pasted.
\<close>

theorem pasted_token_not_sent_verbatim_counterexample:
  "map ar_token (posted (handleSubmit ''jira'' ''JIRA_TOKEN'' (\<lambda>r. True)
      (prompt0\<lparr>pasted := '' abc''\<rparr>))) \<noteq> ['' abc'']"
  by (simp add: handleSubmit_def submitMCPAuth_def Let_def trim_def is_ws_def prompt0_def)

section \<open>Properties of the credential form\<close>








end
